theory Spec2Isabelle
  imports Main
begin

section \<open>The \<open>synctranslations\<close> management command\<close>

text \<open>
  A shallow embedding of \<open>Command.handle\<close> of
  \<open>translations/management/commands/synctranslations.py\<close>. The command reads the
  content-type table and the translation table, builds one filter (a \<open>Q\<close> object),
  reports what the filter selects, asks for a confirmation and deletes the selected rows.
  The tables, the application registry, the standard input and the order in which Python
  iterates over a \<open>set\<close> are the parameters of the model (the record \<open>world\<close>); what the
  command writes, reads and deletes is logged as a list of events.
\<close>

subsection \<open>Data model\<close>

text \<open>
  A model class, as far as the command looks at it: its \<open>__name__\<close>, and whether it is a
  subclass of \<open>Translatable\<close>. \<open>mc_translatable_fields\<close> is \<open>None\<close> when
  \<open>issubclass(model, Translatable)\<close> is false, and \<open>Some fs\<close> when it is true and
  \<open>model._get_translatable_fields_names()\<close> returns \<open>fs\<close>.
\<close>

record model_class =
  mc_name :: string
  mc_translatable_fields :: "string list option"

text \<open>
  A row of the content-type table. \<open>ct_model_class\<close> is the result of
  \<open>content_type.model_class()\<close>, which is \<open>None\<close> for a content type whose model is no
  longer installed.
\<close>

record content_type =
  ct_id :: nat
  ct_app_label :: string
  ct_model_class :: "model_class option"

text \<open>
  A row of the translation table: its primary key, the content type its foreign key
  points to (\<open>instance.content_type\<close>), the field name (\<open>instance.field\<close>) and the payload.
\<close>

record translation =
  tr_id :: nat
  tr_content_type :: content_type
  tr_field :: string
  tr_object_id :: string
  tr_language :: string
  tr_text :: string

text \<open>The exceptions that can leave \<open>handle\<close>.\<close>

datatype exn =
  CommandError string
  | TypeError
  | AttributeError
  | EOFError
  | SystemExit nat

subsection \<open>\<open>Q\<close> objects\<close>

text \<open>
  The filters the command builds: the empty \<open>Q()\<close>, \<open>Q(content_type=ct)\<close> (a comparison
  of primary keys), \<open>Q(field__in=fs)\<close>, and the connectives \<open>&\<close>, \<open>|\<close> and \<open>~\<close>.
\<close>

datatype q =
  QEmpty
  | QContentType nat
  | QFieldIn "string list"
  | QAnd q q
  | QOr q q
  | QNot q

text \<open>
  \<open>Q.__or__\<close> and \<open>Q.__and__\<close>: combining with an empty \<open>Q\<close> returns the other operand,
  otherwise a new node is built.
\<close>

fun q_or :: "q \<Rightarrow> q \<Rightarrow> q" where
  "q_or a QEmpty = a"
| "q_or QEmpty b = b"
| "q_or a b = QOr a b"

fun q_and :: "q \<Rightarrow> q \<Rightarrow> q" where
  "q_and a QEmpty = a"
| "q_and QEmpty b = b"
| "q_and a b = QAnd a b"

text \<open>
  Whether a translation row satisfies a filter. An empty \<open>Q\<close> adds no condition, so
  \<open>filter(Q())\<close> selects every row.
\<close>

fun matches :: "q \<Rightarrow> translation \<Rightarrow> bool" where
  "matches QEmpty r = True"
| "matches (QContentType i) r = (ct_id (tr_content_type r) = i)"
| "matches (QFieldIn fs) r = (tr_field r \<in> set fs)"
| "matches (QAnd a b) r = (matches a r \<and> matches b r)"
| "matches (QOr a b) r = (matches a r \<or> matches b r)"
| "matches (QNot a) r = (\<not> matches a r)"

subsection \<open>Building the filter (lines 59 to 72)\<close>

text \<open>
  The body of the loop over the content types for one content type: the filter for its
  rows. \<open>issubclass(None, Translatable)\<close> raises \<open>TypeError\<close>.
\<close>

definition model_query :: "content_type \<Rightarrow> exn + q" where
  "model_query content_type =
     (case ct_model_class content_type of
        None \<Rightarrow> Inl TypeError
      | Some model \<Rightarrow>
          (case mc_translatable_fields model of
             Some translatable_fields \<Rightarrow>
               Inr (q_and (QContentType (ct_id content_type))
                          (QNot (QFieldIn translatable_fields)))
           | None \<Rightarrow> Inr (QContentType (ct_id content_type))))"

text \<open>The loop: \<open>query |= model_query\<close> for each content type in turn.\<close>

fun build_query :: "q \<Rightarrow> content_type list \<Rightarrow> exn + q" where
  "build_query query [] = Inr query"
| "build_query query (content_type # content_types) =
     (case model_query content_type of
        Inl e \<Rightarrow> Inl e
      | Inr mq \<Rightarrow> build_query (q_or query mq) content_types)"

text \<open>
  The condition that the filter of one content type expresses on a row, written out: the
  row points to the content type, and when the model is translatable its field is not
  among the translatable fields.
\<close>

definition stale_for :: "content_type \<Rightarrow> translation \<Rightarrow> bool" where
  "stale_for content_type r =
     (ct_id (tr_content_type r) = ct_id content_type \<and>
      (case ct_model_class content_type of
         None \<Rightarrow> True
       | Some model \<Rightarrow>
           (case mc_translatable_fields model of
              None \<Rightarrow> True
            | Some fs \<Rightarrow> tr_field r \<notin> set fs)))"

subsection \<open>The invocation and its environment\<close>

text \<open>
  The options \<open>handle\<close> reads: \<open>options['verbosity']\<close>, \<open>options['interactive']\<close>
  (false under \<open>--noinput\<close>) and \<open>options['app_label']\<close> (\<open>None\<close> when the argument is
  left out).
\<close>

record options =
  opt_verbosity :: int
  opt_interactive :: bool
  opt_app_label :: "string option"

text \<open>What one call of \<open>input\<close> meets: a line (without its newline) or an interrupt.\<close>

datatype response = Line string | KeyboardInterrupt

text \<open>
  Everything outside the command: the labels of \<open>apps.get_app_configs()\<close>, the two
  tables, \<open>self.stdin.isatty()\<close> (\<open>None\<close> when \<open>self.stdin\<close> has no attribute \<open>isatty\<close>),
  the responses waiting on the standard input (none left is the end of the input), and
  the order in which Python iterates over a \<open>set\<close> of strings. A \<open>set\<close> is kept as the
  list of its distinct elements in the order of insertion; the iteration order depends on
  the hashes of the strings, which vary from one process to the next, so
  \<open>set_iteration\<close> is a parameter.
\<close>

record world =
  app_labels :: "string list"
  content_type_table :: "content_type list"
  translation_table :: "translation list"
  stdin_isatty :: "bool option"
  stdin_responses :: "response list"
  set_iteration :: "string list \<Rightarrow> string list"

text \<open>
  What the command does to the outside, in order: a write to \<open>self.stdout\<close> (with the
  style applied to the message), a write to \<open>self.stderr\<close>, a call of \<open>input\<close> with its
  prompt, the evaluation of the queryset and the bulk delete.
\<close>

datatype style = Plain | SUCCESS | NOTICE

datatype event =
  StdoutWrite style string
  | StderrWrite string
  | Input string
  | Fetch q
  | Delete q

text \<open>The value \<open>handle\<close> returns: \<open>None\<close>, \<open>True\<close> or \<open>False\<close>.\<close>

datatype py_value = PyNone | PyBool bool

datatype outcome = Returned py_value | Raised exn

record result =
  res_outcome :: outcome
  res_translations :: "translation list"
  res_events :: "event list"

subsection \<open>The content types in scope (lines 46 to 56)\<close>

definition quoted :: "string \<Rightarrow> string" where
  "quoted s = CHR 0x27 # s @ [CHR 0x27]"

text \<open>
  \<open>if app_label:\<close> is false for \<open>None\<close> and for the empty string; both take every
  content type.
\<close>

definition get_content_types :: "world \<Rightarrow> string option \<Rightarrow> exn + content_type list" where
  "get_content_types w label =
     (case label of
        None \<Rightarrow> Inr (content_type_table w)
      | Some l \<Rightarrow>
          if l \<noteq> [] then
            (if l \<in> set (app_labels w)
             then Inr (filter (\<lambda>c. ct_app_label c = l) (content_type_table w))
             else Inl (CommandError (''App '' @ quoted l @ '' is not found.'')))
          else Inr (content_type_table w))"

subsection \<open>The report (lines 78 to 93)\<close>

text \<open>\<open>s.add(x)\<close> on a set, and \<open>d.setdefault(k, set())\<close> and \<open>d[k].add(x)\<close> on a dictionary
  (an association list in the order of insertion, which is the order of \<open>d.items()\<close>).\<close>

definition set_add :: "'a list \<Rightarrow> 'a \<Rightarrow> 'a list" where
  "set_add s x = (if x \<in> set s then s else s @ [x])"

definition dict_setdefault ::
  "(string \<times> string list) list \<Rightarrow> string \<Rightarrow> (string \<times> string list) list" where
  "dict_setdefault d k = (if k \<in> set (map fst d) then d else d @ [(k, [])])"

definition dict_add ::
  "(string \<times> string list) list \<Rightarrow> string \<Rightarrow> string \<Rightarrow> (string \<times> string list) list" where
  "dict_add d k x = map (\<lambda>(k', s). if k' = k then (k', set_add s x) else (k', s)) d"

text \<open>
  The loop over the queryset. \<open>instance.content_type.model_class().__name__\<close> raises
  \<open>AttributeError\<close> when \<open>model_class()\<close> is \<open>None\<close>.
\<close>

fun collect_changes ::
  "(string \<times> string list) list \<Rightarrow> translation list \<Rightarrow> exn + (string \<times> string list) list" where
  "collect_changes changes [] = Inr changes"
| "collect_changes changes (instance # queryset) =
     (case ct_model_class (tr_content_type instance) of
        None \<Rightarrow> Inl AttributeError
      | Some model \<Rightarrow>
          collect_changes
            (dict_add (dict_setdefault changes (mc_name model)) (mc_name model)
               (tr_field instance))
            queryset)"

text \<open>\<open>sep.join(xs)\<close>.\<close>

fun join :: "string \<Rightarrow> string list \<Rightarrow> string" where
  "join sep [] = []"
| "join sep [x] = x"
| "join sep (x # y # xs) = x @ sep @ join sep (y # xs)"

text \<open>One element of \<open>change_list\<close>; \<open>len(fields)\<close> is the size of the set.\<close>

definition change_line :: "(string list \<Rightarrow> string list) \<Rightarrow> string \<times> string list \<Rightarrow> string" where
  "change_line iteration entry =
     (case entry of (model, field_set) \<Rightarrow>
        ''- '' @ quoted (join '', '' (iteration field_set))
        @ '' field'' @ (if 1 < length field_set then ''s'' else [])
        @ '' in '' @ quoted model @ '' model'')"

definition change_list :: "world \<Rightarrow> translation list \<Rightarrow> exn + string list" where
  "change_list w queryset =
     (case collect_changes [] queryset of
        Inl e \<Rightarrow> Inl e
      | Inr changes \<Rightarrow> Inr (map (change_line (set_iteration w)) changes))"

definition report :: "world \<Rightarrow> int \<Rightarrow> translation list \<Rightarrow> exn + event list" where
  "report w verbosity queryset =
     (if 1 \<le> verbosity then
        (case change_list w queryset of
           Inl e \<Rightarrow> Inl e
         | Inr lines \<Rightarrow>
             Inr [StdoutWrite Plain ''The translations for the following will be deleted:'',
                  StdoutWrite Plain (join ''\<newline>'' lines)])
      else Inr [])"

subsection \<open>The confirmation (lines 95 to 128)\<close>

text \<open>\<open>str.lower\<close> on the ASCII letters; every other byte is left as it is.\<close>

definition lower_char :: "char \<Rightarrow> char" where
  "lower_char c =
     (case map_of (zip ''ABCDEFGHIJKLMNOPQRSTUVWXYZ'' ''abcdefghijklmnopqrstuvwxyz'') c of
        None \<Rightarrow> c
      | Some l \<Rightarrow> l)"

definition lower :: "string \<Rightarrow> string" where
  "lower s = map lower_char s"

definition prompt :: string where
  "prompt = ''Are you sure you want to synchronize translations? [Y/n] ''"

text \<open>
  How control leaves the confirmation: on to line 130 with the value of \<open>run\<close> (\<open>None\<close>
  or \<open>True\<close>), out of \<open>handle\<close> by a \<open>return\<close>, or out of it by an exception.
\<close>

datatype flow = Proceed "bool option" | Return py_value | Raise exn

text \<open>
  The loop \<open>while run is None\<close> (lines 101 to 117). Every path through the body leaves
  \<open>handle\<close> by a \<open>return\<close> or an exception, so the body runs at most once and there is
  no recursive call. \<open>input\<close> raises \<open>EOFError\<close> at the end of the input.
\<close>

fun ask :: "bool option \<Rightarrow> response list \<Rightarrow> flow \<times> event list" where
  "ask (Some run) responses = (Proceed (Some run), [])"
| "ask None [] = (Raise EOFError, [Input prompt])"
| "ask None (KeyboardInterrupt # responses) =
     (Raise (SystemExit 1), [Input prompt, StderrWrite ''\<newline>Operation cancelled.''])"
| "ask None (Line l # responses) =
     (let raw_value = lower l;
          raw_value = (if raw_value = [] then ''y'' else raw_value)
      in if raw_value \<in> set [''y'', ''yes''] then (Return (PyBool True), [Input prompt])
         else if raw_value \<in> set [''n'', ''no''] then (Return (PyBool False), [Input prompt])
         else (Return PyNone, [Input prompt]))"

definition skipped_message :: string where
  "skipped_message =
     ''Synchronizing translations skipped due to not running in a TTY. ''
     @ ''You can run `manage.py synctranslations` in your project ''
     @ ''to synchronize translations manually.''"

definition confirm :: "world \<Rightarrow> bool \<Rightarrow> flow \<times> event list" where
  "confirm w interactive =
     (if interactive then
        (if stdin_isatty w = Some False
         then (Proceed None, [StdoutWrite Plain skipped_message])
         else ask None (stdin_responses w))
      else (Proceed (Some True), []))"

subsection \<open>\<open>handle\<close>\<close>

text \<open>Lines 130 to 134, and the ways out of \<open>handle\<close> from inside the confirmation.\<close>

definition finish :: "world \<Rightarrow> q \<Rightarrow> event list \<Rightarrow> flow \<Rightarrow> result" where
  "finish w query log fl =
     (case fl of
        Proceed run \<Rightarrow>
          if run = Some True then
            \<lparr>res_outcome = Returned PyNone,
             res_translations = filter (\<lambda>r. \<not> matches query r) (translation_table w),
             res_events = log @
               [Delete query,
                StdoutWrite SUCCESS ''Successfully synchronized translations.'']\<rparr>
          else
            \<lparr>res_outcome = Returned PyNone,
             res_translations = translation_table w,
             res_events = log @
               [StdoutWrite NOTICE ''Synchronizing translations cancelled.'']\<rparr>
      | Return v \<Rightarrow>
          \<lparr>res_outcome = Returned v, res_translations = translation_table w,
           res_events = log\<rparr>
      | Raise e \<Rightarrow>
          \<lparr>res_outcome = Raised e, res_translations = translation_table w,
           res_events = log\<rparr>)"

text \<open>Lines 75 to 136: the queryset is evaluated by \<open>if queryset:\<close>.\<close>

definition synchronize :: "world \<Rightarrow> options \<Rightarrow> q \<Rightarrow> result" where
  "synchronize w opts query =
     (let queryset = filter (matches query) (translation_table w) in
      if queryset \<noteq> [] then
        (case report w (opt_verbosity opts) queryset of
           Inl e \<Rightarrow>
             \<lparr>res_outcome = Raised e, res_translations = translation_table w,
              res_events = [Fetch query]\<rparr>
         | Inr told \<Rightarrow>
             (case confirm w (opt_interactive opts) of
                (fl, asked) \<Rightarrow> finish w query (Fetch query # told @ asked) fl))
      else
        \<lparr>res_outcome = Returned PyNone, res_translations = translation_table w,
         res_events =
           [Fetch query, StdoutWrite SUCCESS ''No translations to synchronize.'']\<rparr>)"

definition handle :: "world \<Rightarrow> options \<Rightarrow> result" where
  "handle w opts =
     (case get_content_types w (opt_app_label opts) of
        Inl e \<Rightarrow>
          \<lparr>res_outcome = Raised e, res_translations = translation_table w, res_events = []\<rparr>
      | Inr content_types \<Rightarrow>
          (case build_query QEmpty content_types of
             Inl e \<Rightarrow>
               \<lparr>res_outcome = Raised e, res_translations = translation_table w,
                res_events = []\<rparr>
           | Inr query \<Rightarrow> synchronize w opts query))"

text \<open>The candidate set: the rows the filter built for the invocation selects.\<close>

definition candidates :: "world \<Rightarrow> options \<Rightarrow> exn + translation list" where
  "candidates w opts =
     (case get_content_types w (opt_app_label opts) of
        Inl e \<Rightarrow> Inl e
      | Inr content_types \<Rightarrow>
          (case build_query QEmpty content_types of
             Inl e \<Rightarrow> Inl e
           | Inr query \<Rightarrow> Inr (filter (matches query) (translation_table w))))"

subsection \<open>Reading the log\<close>

text \<open>The prompts shown, the deletes issued and the messages written, in order.\<close>

fun inputs :: "event list \<Rightarrow> string list" where
  "inputs [] = []"
| "inputs (Input p # es) = p # inputs es"
| "inputs (e # es) = inputs es"

fun deletes :: "event list \<Rightarrow> q list" where
  "deletes [] = []"
| "deletes (Delete d # es) = d # deletes es"
| "deletes (e # es) = deletes es"

fun messages :: "event list \<Rightarrow> (style \<times> string) list" where
  "messages [] = []"
| "messages (StdoutWrite st m # es) = (st, m) # messages es"
| "messages (e # es) = messages es"

subsection \<open>The report, in closed form\<close>

text \<open>
  The distinct elements of a list in the order of their first appearance, the
  \<open>__name__\<close> a row is reported under, the names reported and the set of fields
  collected under one name.
\<close>

definition first_seen :: "'a list \<Rightarrow> 'a list" where
  "first_seen xs = foldl set_add [] xs"

definition display_name :: "translation \<Rightarrow> string" where
  "display_name r =
     (case ct_model_class (tr_content_type r) of None \<Rightarrow> [] | Some model \<Rightarrow> mc_name model)"

definition names_of :: "translation list \<Rightarrow> string list" where
  "names_of rows = first_seen (map display_name rows)"

definition fields_under :: "string \<Rightarrow> translation list \<Rightarrow> string list" where
  "fields_under name rows =
     first_seen (map tr_field (filter (\<lambda>r. display_name r = name) rows))"

definition fields_in :: "(string \<times> string list) list \<Rightarrow> string \<Rightarrow> string list" where
  "fields_in d k = (case map_of d k of None \<Rightarrow> [] | Some s \<Rightarrow> s)"

subsection \<open>An example\<close>

text \<open>
  \<open>Article\<close> is translatable with the fields \<open>title\<close> and \<open>body\<close>; \<open>LegacyPage\<close> is not
  translatable. Of the five stored translations, the one of \<open>Article.subtitle\<close> and the
  two of \<open>LegacyPage\<close> are stale.
\<close>

definition Article :: content_type where
  "Article = \<lparr>ct_id = 1, ct_app_label = ''blog'',
     ct_model_class = Some \<lparr>mc_name = ''Article'',
       mc_translatable_fields = Some [''title'', ''body'']\<rparr>\<rparr>"

definition LegacyPage :: content_type where
  "LegacyPage = \<lparr>ct_id = 2, ct_app_label = ''pages'',
     ct_model_class = Some \<lparr>mc_name = ''LegacyPage'', mc_translatable_fields = None\<rparr>\<rparr>"

definition row :: "nat \<Rightarrow> content_type \<Rightarrow> string \<Rightarrow> translation" where
  "row i c f = \<lparr>tr_id = i, tr_content_type = c, tr_field = f, tr_object_id = ''1'',
     tr_language = ''de'', tr_text = ''text''\<rparr>"

definition example_rows :: "translation list" where
  "example_rows = [row 1 Article ''title'', row 2 Article ''body'',
     row 3 Article ''subtitle'', row 4 LegacyPage ''title'', row 5 LegacyPage ''caption'']"

definition example_world :: "response list \<Rightarrow> world" where
  "example_world responses =
     \<lparr>app_labels = [''blog'', ''pages''],
      content_type_table = [Article, LegacyPage],
      translation_table = example_rows,
      stdin_isatty = Some True,
      stdin_responses = responses,
      set_iteration = (\<lambda>s. s)\<rparr>"

definition example_query :: q where
  "example_query =
     QOr (QAnd (QContentType 1) (QNot (QFieldIn [''title'', ''body''])))
         (QContentType 2)"

definition example_report :: "event list" where
  "example_report =
     [StdoutWrite Plain ''The translations for the following will be deleted:'',
      StdoutWrite Plain
        (''- 'subtitle' field in 'Article' model'' @ ''\<newline>''
         @ ''- 'title, caption' fields in 'LegacyPage' model'')]"

definition example_options :: "bool \<Rightarrow> string option \<Rightarrow> options" where
  "example_options interactive label =
     \<lparr>opt_verbosity = 1, opt_interactive = interactive, opt_app_label = label\<rparr>"

text \<open>The same world once the three stale rows are gone.\<close>

definition clean_world :: world where
  "clean_world =
     (example_world [])\<lparr>translation_table :=
        [row 1 Article ''title'', row 2 Article ''body'']\<rparr>"

text \<open>A translatable model whose list of translatable fields is empty.\<close>

definition Tag :: content_type where
  "Tag = \<lparr>ct_id = 3, ct_app_label = ''tags'',
     ct_model_class = Some \<lparr>mc_name = ''Tag'', mc_translatable_fields = Some []\<rparr>\<rparr>"

definition tag_world :: world where
  "tag_world =
     \<lparr>app_labels = [''blog'', ''tags''],
      content_type_table = [Article, Tag],
      translation_table = [row 1 Article ''title'', row 6 Tag ''name'', row 7 Tag ''slug''],
      stdin_isatty = Some True,
      stdin_responses = [],
      set_iteration = (\<lambda>s. s)\<rparr>"

text \<open>
  The list of lines as the specification words it, to compare \<open>change_list\<close> with: one
  line for each record type that a row points to, with the distinct field names of the
  rows of that type in the order of their first appearance.
\<close>

definition claimed_change_list :: "translation list \<Rightarrow> string list" where
  "claimed_change_list rows =
     map (\<lambda>c. change_line (\<lambda>s. s)
                 (case ct_model_class c of None \<Rightarrow> [] | Some model \<Rightarrow> mc_name model,
                  first_seen (map tr_field (filter (\<lambda>r. tr_content_type r = c) rows))))
       (first_seen (map tr_content_type rows))"

text \<open>
  Two applications with a model named \<open>Article\<close> each, and a process in which a set of
  two strings is iterated over in the reverse order of insertion.
\<close>

definition NewsArticle :: content_type where
  "NewsArticle = \<lparr>ct_id = 4, ct_app_label = ''news'',
     ct_model_class = Some \<lparr>mc_name = ''Article'', mc_translatable_fields = None\<rparr>\<rparr>"

definition clash_rows :: "translation list" where
  "clash_rows = [row 3 Article ''subtitle'', row 8 Article ''intro'',
     row 9 NewsArticle ''subtitle'']"

definition clash_world :: world where
  "clash_world =
     \<lparr>app_labels = [''blog'', ''news''],
      content_type_table = [Article, NewsArticle],
      translation_table = clash_rows,
      stdin_isatty = Some True,
      stdin_responses = [],
      set_iteration = rev\<rparr>"

text \<open>
  The example with a third registered application, \<open>staticfiles\<close>, which has no model
  and so no content type.
\<close>

definition staticfiles_world :: world where
  "staticfiles_world =
     (example_world [])\<lparr>app_labels := [''blog'', ''pages'', ''staticfiles'']\<rparr>"

definition whole_table_report :: "event list" where
  "whole_table_report =
     [StdoutWrite Plain ''The translations for the following will be deleted:'',
      StdoutWrite Plain
        (''- 'title, body, subtitle' fields in 'Article' model'' @ ''\<newline>''
         @ ''- 'title, caption' fields in 'LegacyPage' model'')]"

subsection \<open>Properties of the filter\<close>

lemma matches_q_or: "matches (q_or a b) r = (if a = QEmpty then matches b r
    else if b = QEmpty then matches a r else (matches a r \<or> matches b r))"
  by (cases a; cases b) simp_all

lemma model_query_not_empty: "model_query c = Inr mq \<Longrightarrow> mq \<noteq> QEmpty"
  by (auto simp: model_query_def split: option.splits)

lemma matches_model_query: "model_query c = Inr mq \<Longrightarrow> matches mq r = stale_for c r"
  by (auto simp: model_query_def stale_for_def split: option.splits)

lemma build_query_matches:
  "build_query query cts = Inr result \<Longrightarrow> query \<noteq> QEmpty \<Longrightarrow>
   matches result r = (matches query r \<or> (\<exists>c \<in> set cts. stale_for c r))"
proof (induction cts arbitrary: query)
  case Nil
  then show ?case by simp
next
  case (Cons c cts)
  from Cons.prems(1) obtain mq where mq: "model_query c = Inr mq"
    and rest: "build_query (q_or query mq) cts = Inr result"
    by (auto split: sum.splits)
  have ne: "mq \<noteq> QEmpty" using mq by (rule model_query_not_empty)
  have ne': "q_or query mq \<noteq> QEmpty" using ne Cons.prems(2) by (cases query; cases mq) simp_all
  have "matches result r = (matches (q_or query mq) r \<or> (\<exists>c \<in> set cts. stale_for c r))"
    using Cons.IH [OF rest ne'] .
  also have "matches (q_or query mq) r = (matches query r \<or> stale_for c r)"
    using ne Cons.prems(2) matches_model_query [OF mq] by (simp add: matches_q_or)
  finally show ?case by auto
qed

lemma build_query_from_empty:
  "build_query QEmpty cts = Inr result \<Longrightarrow> cts \<noteq> [] \<Longrightarrow>
   matches result r = (\<exists>c \<in> set cts. stale_for c r)"
proof (cases cts)
  case Nil
  assume "cts \<noteq> []"
  with Nil show ?thesis by simp
next
  case (Cons c cs)
  assume b: "build_query QEmpty cts = Inr result"
  from b Cons obtain mq where mq: "model_query c = Inr mq"
    and rest: "build_query (q_or QEmpty mq) cs = Inr result"
    by (auto split: sum.splits)
  have ne: "mq \<noteq> QEmpty" using mq by (rule model_query_not_empty)
  have eq: "q_or QEmpty mq = mq" using ne by (cases mq) simp_all
  have "matches result r = (matches mq r \<or> (\<exists>c \<in> set cs. stale_for c r))"
    using build_query_matches [OF rest [unfolded eq] ne] .
  then show ?thesis using Cons matches_model_query [OF mq] by simp
qed

subsection \<open>Properties of \<open>handle\<close>\<close>

lemmas example_defs = example_world_def example_rows_def row_def Article_def LegacyPage_def
  example_query_def example_report_def example_options_def clean_world_def

lemma handle_synchronize:
  "get_content_types w (opt_app_label opts) = Inr cts \<Longrightarrow>
   build_query QEmpty cts = Inr query \<Longrightarrow>
   handle w opts = synchronize w opts query"
  by (simp add: handle_def)

lemma inputs_append: "inputs (xs @ ys) = inputs xs @ inputs ys"
  by (induction xs rule: inputs.induct) simp_all

lemma deletes_append: "deletes (xs @ ys) = deletes xs @ deletes ys"
  by (induction xs rule: deletes.induct) simp_all

lemma report_quiet: "report w v rows = Inr told \<Longrightarrow> inputs told = [] \<and> deletes told = []"
  by (auto simp: report_def split: if_splits sum.splits)

text \<open>The example, evaluated step by step.\<close>

lemma example_scope: "get_content_types (example_world rs) None = Inr [Article, LegacyPage]"
  by (simp add: get_content_types_def example_world_def)

lemma example_build: "build_query QEmpty [Article, LegacyPage] = Inr example_query"
  by (simp add: model_query_def example_defs)

lemma example_candidates:
  "filter (matches example_query) example_rows =
     [row 3 Article ''subtitle'', row 4 LegacyPage ''title'', row 5 LegacyPage ''caption'']"
  by (simp add: example_defs)

lemma example_report_eq:
  "report (example_world rs) 1 (filter (matches example_query) example_rows)
   = Inr example_report"
  unfolding example_candidates
  by (simp add: report_def change_list_def dict_add_def dict_setdefault_def set_add_def
      change_line_def quoted_def example_defs)

lemma example_remaining:
  "filter (\<lambda>r. \<not> matches example_query r) example_rows =
     [row 1 Article ''title'', row 2 Article ''body'']"
  by (simp add: example_defs)

text \<open>
  \<^bold>\<open>C6.\<close> When the filter selects no row, the command shows no prompt, issues no delete
  and writes one message, \<open>No translations to synchronize.\<close>: the log holds the evaluation
  of the queryset and that message, the table is unchanged and \<open>handle\<close> returns \<open>None\<close>.
\<close>

theorem empty_candidates_nothing_to_synchronize:
  assumes "get_content_types w (opt_app_label opts) = Inr cts"
    and "build_query QEmpty cts = Inr query"
    and "filter (matches query) (translation_table w) = []"
  shows "handle w opts =
    \<lparr>res_outcome = Returned PyNone, res_translations = translation_table w,
     res_events = [Fetch query, StdoutWrite SUCCESS ''No translations to synchronize.'']\<rparr>"
  using assms by (simp add: handle_synchronize synchronize_def)

theorem empty_candidates_witness:
  "get_content_types clean_world (opt_app_label (example_options True None))
     = Inr [Article, LegacyPage]
   \<and> build_query QEmpty [Article, LegacyPage] = Inr example_query
   \<and> filter (matches example_query) (translation_table clean_world) = []
   \<and> handle clean_world (example_options True None) =
       \<lparr>res_outcome = Returned PyNone,
        res_translations = [row 1 Article ''title'', row 2 Article ''body''],
        res_events =
          [Fetch example_query, StdoutWrite SUCCESS ''No translations to synchronize.'']\<rparr>"
proof -
  have s: "get_content_types clean_world (opt_app_label (example_options True None))
      = Inr [Article, LegacyPage]"
    by (simp add: get_content_types_def example_world_def clean_world_def
        example_options_def)
  have e: "filter (matches example_query) (translation_table clean_world) = []"
    by (simp add: example_defs)
  have t: "translation_table clean_world = [row 1 Article ''title'', row 2 Article ''body'']"
    by (simp add: clean_world_def)
  have "handle clean_world (example_options True None) =
       \<lparr>res_outcome = Returned PyNone,
        res_translations = [row 1 Article ''title'', row 2 Article ''body''],
        res_events =
          [Fetch example_query, StdoutWrite SUCCESS ''No translations to synchronize.'']\<rparr>"
    using empty_candidates_nothing_to_synchronize [OF s example_build e] by (simp only: t)
  with s example_build e show ?thesis by blast
qed

text \<open>The three ways through the confirmation, for a queryset that is not empty.\<close>

lemma synchronize_noinput:
  assumes "filter (matches query) (translation_table w) \<noteq> []"
    and "report w (opt_verbosity opts) (filter (matches query) (translation_table w)) = Inr told"
    and "\<not> opt_interactive opts"
  shows "synchronize w opts query =
    \<lparr>res_outcome = Returned PyNone,
     res_translations = filter (\<lambda>r. \<not> matches query r) (translation_table w),
     res_events = Fetch query # told @
       [Delete query, StdoutWrite SUCCESS ''Successfully synchronized translations.'']\<rparr>"
  using assms by (simp add: synchronize_def confirm_def finish_def)

lemma synchronize_not_a_tty:
  assumes "filter (matches query) (translation_table w) \<noteq> []"
    and "report w (opt_verbosity opts) (filter (matches query) (translation_table w)) = Inr told"
    and "opt_interactive opts"
    and "stdin_isatty w = Some False"
  shows "synchronize w opts query =
    \<lparr>res_outcome = Returned PyNone, res_translations = translation_table w,
     res_events = Fetch query # told @
       [StdoutWrite Plain skipped_message,
        StdoutWrite NOTICE ''Synchronizing translations cancelled.'']\<rparr>"
  using assms by (simp add: synchronize_def confirm_def finish_def)

lemma synchronize_answered:
  assumes "filter (matches query) (translation_table w) \<noteq> []"
    and "report w (opt_verbosity opts) (filter (matches query) (translation_table w)) = Inr told"
    and "opt_interactive opts"
    and "stdin_isatty w \<noteq> Some False"
    and "stdin_responses w = Line l # rest"
  shows "synchronize w opts query =
    finish w query (Fetch query # told @ [Input prompt]) (fst (ask None [Line l]))"
  using assms by (simp add: synchronize_def confirm_def Let_def)

text \<open>
  \<^bold>\<open>C7.\<close> Under \<open>--noinput\<close>, when the filter selects at least one row, the command
  shows no prompt, issues one bulk delete with the filter, which removes the selected
  rows from the table, and reports success.
\<close>

theorem noinput_deletes_without_prompt:
  assumes "get_content_types w (opt_app_label opts) = Inr cts"
    and "build_query QEmpty cts = Inr query"
    and "filter (matches query) (translation_table w) \<noteq> []"
    and "report w (opt_verbosity opts) (filter (matches query) (translation_table w)) = Inr told"
    and "\<not> opt_interactive opts"
  shows "handle w opts =
    \<lparr>res_outcome = Returned PyNone,
     res_translations = filter (\<lambda>r. \<not> matches query r) (translation_table w),
     res_events = Fetch query # told @
       [Delete query, StdoutWrite SUCCESS ''Successfully synchronized translations.'']\<rparr>
    \<and> inputs (res_events (handle w opts)) = []
    \<and> deletes (res_events (handle w opts)) = [query]"
proof -
  have h: "handle w opts = synchronize w opts query"
    using assms(1,2) by (rule handle_synchronize)
  show ?thesis
    using report_quiet [OF assms(4)]
    by (simp add: h synchronize_noinput [OF assms(3,4,5)] inputs_append deletes_append)
qed

theorem noinput_witness:
  "get_content_types (example_world []) (opt_app_label (example_options False None))
     = Inr [Article, LegacyPage]
   \<and> build_query QEmpty [Article, LegacyPage] = Inr example_query
   \<and> filter (matches example_query) (translation_table (example_world [])) \<noteq> []
   \<and> report (example_world []) (opt_verbosity (example_options False None))
        (filter (matches example_query) (translation_table (example_world [])))
      = Inr example_report
   \<and> \<not> opt_interactive (example_options False None)
   \<and> handle (example_world []) (example_options False None) =
       \<lparr>res_outcome = Returned PyNone,
        res_translations = [row 1 Article ''title'', row 2 Article ''body''],
        res_events = Fetch example_query # example_report @
          [Delete example_query,
           StdoutWrite SUCCESS ''Successfully synchronized translations.'']\<rparr>"
proof -
  have t: "translation_table (example_world []) = example_rows"
    by (simp add: example_world_def)
  have s: "get_content_types (example_world []) (opt_app_label (example_options False None))
      = Inr [Article, LegacyPage]"
    by (simp add: example_options_def example_scope)
  have n: "filter (matches example_query) (translation_table (example_world [])) \<noteq> []"
    by (simp only: t example_candidates) simp
  have r: "report (example_world []) (opt_verbosity (example_options False None))
        (filter (matches example_query) (translation_table (example_world [])))
      = Inr example_report"
    by (simp only: t) (simp add: example_options_def example_report_eq)
  have i: "\<not> opt_interactive (example_options False None)"
    by (simp add: example_options_def)
  have "handle (example_world []) (example_options False None) =
       \<lparr>res_outcome = Returned PyNone,
        res_translations = [row 1 Article ''title'', row 2 Article ''body''],
        res_events = Fetch example_query # example_report @
          [Delete example_query,
           StdoutWrite SUCCESS ''Successfully synchronized translations.'']\<rparr>"
    using noinput_deletes_without_prompt [OF s example_build n r i]
    by (simp only: t example_remaining)
  with s example_build n r i show ?thesis by blast
qed

text \<open>The example on an input stream that is not a terminal.\<close>

lemma report_isatty: "report (w\<lparr>stdin_isatty := t\<rparr>) v rows = report w v rows"
  by (simp add: report_def change_list_def split: sum.split)

text \<open>
  \<^bold>\<open>C9.\<close> In interactive mode, when \<open>self.stdin.isatty()\<close> is false and the filter
  selects at least one row, the command reads no input, deletes nothing, writes the
  message that the synchronization is skipped and returns normally. (The message that
  the synchronization is cancelled follows, since \<open>run\<close> is still \<open>None\<close> at line 130.)
\<close>

theorem not_a_tty_skips:
  assumes "get_content_types w (opt_app_label opts) = Inr cts"
    and "build_query QEmpty cts = Inr query"
    and "filter (matches query) (translation_table w) \<noteq> []"
    and "report w (opt_verbosity opts) (filter (matches query) (translation_table w)) = Inr told"
    and "opt_interactive opts"
    and "stdin_isatty w = Some False"
  shows "handle w opts =
    \<lparr>res_outcome = Returned PyNone, res_translations = translation_table w,
     res_events = Fetch query # told @
       [StdoutWrite Plain skipped_message,
        StdoutWrite NOTICE ''Synchronizing translations cancelled.'']\<rparr>
    \<and> inputs (res_events (handle w opts)) = []
    \<and> deletes (res_events (handle w opts)) = []"
proof -
  have h: "handle w opts = synchronize w opts query"
    using assms(1,2) by (rule handle_synchronize)
  show ?thesis
    using report_quiet [OF assms(4)]
    by (simp add: h synchronize_not_a_tty [OF assms(3,4,5,6)] inputs_append deletes_append)
qed

theorem not_a_tty_witness:
  "get_content_types ((example_world [])\<lparr>stdin_isatty := Some False\<rparr>)
       (opt_app_label (example_options True None))
     = Inr [Article, LegacyPage]
   \<and> build_query QEmpty [Article, LegacyPage] = Inr example_query
   \<and> filter (matches example_query)
        (translation_table ((example_world [])\<lparr>stdin_isatty := Some False\<rparr>)) \<noteq> []
   \<and> report ((example_world [])\<lparr>stdin_isatty := Some False\<rparr>)
        (opt_verbosity (example_options True None))
        (filter (matches example_query)
          (translation_table ((example_world [])\<lparr>stdin_isatty := Some False\<rparr>)))
      = Inr example_report
   \<and> opt_interactive (example_options True None)
   \<and> stdin_isatty ((example_world [])\<lparr>stdin_isatty := Some False\<rparr>) = Some False
   \<and> handle ((example_world [])\<lparr>stdin_isatty := Some False\<rparr>) (example_options True None) =
       \<lparr>res_outcome = Returned PyNone, res_translations = example_rows,
        res_events = Fetch example_query # example_report @
          [StdoutWrite Plain skipped_message,
           StdoutWrite NOTICE ''Synchronizing translations cancelled.'']\<rparr>"
proof -
  let ?w = "(example_world [])\<lparr>stdin_isatty := Some False\<rparr>"
  have t: "translation_table ?w = example_rows"
    by (simp add: example_world_def)
  have s: "get_content_types ?w (opt_app_label (example_options True None))
      = Inr [Article, LegacyPage]"
    by (simp add: example_options_def get_content_types_def example_world_def)
  have n: "filter (matches example_query) (translation_table ?w) \<noteq> []"
    by (simp only: t example_candidates) simp
  have r: "report ?w (opt_verbosity (example_options True None))
        (filter (matches example_query) (translation_table ?w)) = Inr example_report"
    by (simp only: t report_isatty) (simp add: example_options_def example_report_eq)
  have i: "opt_interactive (example_options True None)"
    by (simp add: example_options_def)
  have a: "stdin_isatty ?w = Some False"
    by simp
  have "handle ?w (example_options True None) =
       \<lparr>res_outcome = Returned PyNone, res_translations = example_rows,
        res_events = Fetch example_query # example_report @
          [StdoutWrite Plain skipped_message,
           StdoutWrite NOTICE ''Synchronizing translations cancelled.'']\<rparr>"
    using not_a_tty_skips [OF s example_build n r i a] by (simp only: t)
  with s example_build n r i a show ?thesis by blast
qed

text \<open>An empty line and the line \<open>y\<close> are the same answer.\<close>

lemma ask_empty_line: "ask None (Line [] # rest) = ask None (Line ''y'' # rest)"
  by (simp add: lower_def lower_char_def)

lemma get_content_types_responses:
  "get_content_types (w\<lparr>stdin_responses := rs\<rparr>) l = get_content_types w l"
  by (simp add: get_content_types_def split: option.split)

lemma report_responses: "report (w\<lparr>stdin_responses := rs\<rparr>) v rows = report w v rows"
  by (simp add: report_def change_list_def split: sum.split)

lemma confirm_empty_line:
  "confirm (w\<lparr>stdin_responses := Line [] # rest\<rparr>) i
   = confirm (w\<lparr>stdin_responses := Line ''y'' # rest\<rparr>) i"
  by (simp add: confirm_def ask_empty_line del: ask.simps)

lemma finish_responses:
  "finish (w\<lparr>stdin_responses := rs\<rparr>) query log fl = finish w query log fl"
  by (simp add: finish_def split: flow.split)

lemma synchronize_empty_line:
  "synchronize (w\<lparr>stdin_responses := Line [] # rest\<rparr>) opts query
   = synchronize (w\<lparr>stdin_responses := Line ''y'' # rest\<rparr>) opts query"
  by (simp add: synchronize_def report_responses confirm_empty_line finish_responses Let_def
      split: sum.split prod.split)

lemma example_answered:
  "handle (example_world (Line l # rest)) (example_options True None) =
     finish (example_world (Line l # rest)) example_query
       (Fetch example_query # example_report @ [Input prompt]) (fst (ask None [Line l]))"
proof -
  let ?w = "example_world (Line l # rest)"
  let ?o = "example_options True None"
  have t: "translation_table ?w = example_rows"
    by (simp add: example_world_def)
  have s: "get_content_types ?w (opt_app_label ?o) = Inr [Article, LegacyPage]"
    by (simp add: example_options_def example_scope)
  have n: "filter (matches example_query) (translation_table ?w) \<noteq> []"
    by (simp only: t example_candidates) simp
  have r: "report ?w (opt_verbosity ?o) (filter (matches example_query) (translation_table ?w))
      = Inr example_report"
    by (simp only: t) (simp add: example_options_def example_report_eq)
  have i: "opt_interactive ?o"
    by (simp add: example_options_def)
  have a: "stdin_isatty ?w \<noteq> Some False"
    by (simp add: example_world_def)
  have l: "stdin_responses ?w = Line l # rest"
    by (simp add: example_world_def)
  show ?thesis
    using handle_synchronize [OF s example_build] synchronize_answered [OF n r i a l]
    by simp
qed

text \<open>
  \<^bold>\<open>C8.\<close> Whatever the world and the options, \<open>handle\<close> gives the same result (the same
  value returned, the same table and the same log) when the first line on the standard
  input is empty as when it is \<open>y\<close>; in particular in interactive mode on a terminal.
\<close>

theorem empty_line_same_as_y:
  "handle (w\<lparr>stdin_responses := Line [] # rest\<rparr>) opts
   = handle (w\<lparr>stdin_responses := Line ''y'' # rest\<rparr>) opts"
  by (simp add: handle_def get_content_types_responses synchronize_empty_line
      split: sum.split)

theorem empty_line_witness:
  "handle (example_world [Line []]) (example_options True None)
   = handle (example_world [Line ''y'']) (example_options True None)
   \<and> handle (example_world [Line []]) (example_options True None) =
       \<lparr>res_outcome = Returned (PyBool True), res_translations = example_rows,
        res_events = Fetch example_query # example_report @ [Input prompt]\<rparr>"
proof -
  have u: "(example_world [])\<lparr>stdin_responses := rs\<rparr> = example_world rs" for rs
    by (simp add: example_world_def)
  have e: "handle (example_world [Line []]) (example_options True None)
      = handle (example_world [Line ''y'']) (example_options True None)"
    using empty_line_same_as_y
            [where w = "example_world []" and rest = "[]" and opts = "example_options True None"]
    by (simp only: u)
  have "handle (example_world [Line []]) (example_options True None) =
       \<lparr>res_outcome = Returned (PyBool True), res_translations = example_rows,
        res_events = Fetch example_query # example_report @ [Input prompt]\<rparr>"
    by (simp add: example_answered finish_def lower_def) (simp add: example_world_def)
  with e show ?thesis by blast
qed

text \<open>
  \<^bold>\<open>C5, as amended.\<close> When the application label is not empty and is not the label of
  a registered application, \<open>handle\<close> raises \<open>CommandError\<close> with the message
  \<open>App '<label>' is not found.\<close> before the queryset is evaluated: the log is empty and
  the table is unchanged.
\<close>

theorem unknown_app_label_fails:
  assumes "opt_app_label opts = Some l" and "l \<noteq> []" and "l \<notin> set (app_labels w)"
  shows "handle w opts =
    \<lparr>res_outcome = Raised (CommandError (''App '' @ quoted l @ '' is not found.'')),
     res_translations = translation_table w, res_events = []\<rparr>"
  using assms by (simp add: handle_def get_content_types_def)

theorem unknown_app_label_witness:
  "opt_app_label (example_options False (Some ''shop'')) = Some ''shop''
   \<and> ''shop'' \<noteq> []
   \<and> ''shop'' \<notin> set (app_labels (example_world []))
   \<and> handle (example_world []) (example_options False (Some ''shop'')) =
       \<lparr>res_outcome = Raised (CommandError ''App 'shop' is not found.''),
        res_translations = example_rows, res_events = []\<rparr>"
proof -
  have a: "opt_app_label (example_options False (Some ''shop'')) = Some ''shop''"
    by (simp add: example_options_def)
  have b: "''shop'' \<noteq> []"
    by simp
  have c: "''shop'' \<notin> set (app_labels (example_world []))"
    by (simp add: example_world_def)
  have "handle (example_world []) (example_options False (Some ''shop'')) =
       \<lparr>res_outcome = Raised (CommandError ''App 'shop' is not found.''),
        res_translations = example_rows, res_events = []\<rparr>"
    using unknown_app_label_fails [OF a b c] by (simp add: quoted_def example_world_def)
  with a b c show ?thesis by blast
qed

text \<open>
  \<^bold>\<open>C5, as stated, fails\<close> for the empty label: \<open>if app_label:\<close> is false for it, so
  the command takes every content type and, under \<open>--noinput\<close>, deletes the stale rows,
  although no application has the empty label.
\<close>

theorem empty_app_label_counterexample:
  "opt_app_label (example_options False (Some [])) = Some []
   \<and> [] \<notin> set (app_labels (example_world []))
   \<and> handle (example_world []) (example_options False (Some [])) =
       \<lparr>res_outcome = Returned PyNone,
        res_translations = [row 1 Article ''title'', row 2 Article ''body''],
        res_events = Fetch example_query # example_report @
          [Delete example_query,
           StdoutWrite SUCCESS ''Successfully synchronized translations.'']\<rparr>
   \<and> res_outcome (handle (example_world []) (example_options False (Some [])))
       \<noteq> Raised (CommandError (''App '' @ quoted [] @ '' is not found.''))
   \<and> res_translations (handle (example_world []) (example_options False (Some [])))
       \<noteq> translation_table (example_world [])"
proof -
  let ?w = "example_world []"
  let ?o = "example_options False (Some [])"
  have t: "translation_table ?w = example_rows"
    by (simp add: example_world_def)
  have s: "get_content_types ?w (opt_app_label ?o) = Inr [Article, LegacyPage]"
    by (simp add: example_options_def get_content_types_def example_world_def)
  have n: "filter (matches example_query) (translation_table ?w) \<noteq> []"
    by (simp only: t example_candidates) simp
  have r: "report ?w (opt_verbosity ?o) (filter (matches example_query) (translation_table ?w))
      = Inr example_report"
    by (simp only: t) (simp add: example_options_def example_report_eq)
  have i: "\<not> opt_interactive ?o"
    by (simp add: example_options_def)
  have h: "handle ?w ?o =
       \<lparr>res_outcome = Returned PyNone,
        res_translations = [row 1 Article ''title'', row 2 Article ''body''],
        res_events = Fetch example_query # example_report @
          [Delete example_query,
           StdoutWrite SUCCESS ''Successfully synchronized translations.'']\<rparr>"
    using handle_synchronize [OF s example_build] synchronize_noinput [OF n r i]
    by (simp only: t example_remaining)
  have a: "opt_app_label ?o = Some []"
    by (simp add: example_options_def)
  have b: "[] \<notin> set (app_labels ?w)"
    by (simp add: example_world_def)
  have c: "res_outcome (handle ?w ?o)
      \<noteq> Raised (CommandError (''App '' @ quoted [] @ '' is not found.''))"
    by (simp add: h)
  have d: "res_translations (handle ?w ?o) \<noteq> translation_table ?w"
    by (simp add: h t example_rows_def)
  from a b h c d show ?thesis by blast
qed

text \<open>
  \<^bold>\<open>C1: what the code does.\<close> In interactive mode on a terminal, with three stale rows,
  the answer \<open>y\<close> (and likewise \<open>YES\<close>) makes line 113 return \<open>True\<close> from \<open>handle\<close>:
  the log ends with the prompt, there is no delete and no message of success, and the
  table still holds the stale rows.
\<close>

theorem yes_answer_returns_before_delete:
  "handle (example_world [Line ''y'']) (example_options True None) =
     \<lparr>res_outcome = Returned (PyBool True), res_translations = example_rows,
      res_events = Fetch example_query # example_report @ [Input prompt]\<rparr>
   \<and> handle (example_world [Line ''YES'']) (example_options True None) =
     \<lparr>res_outcome = Returned (PyBool True), res_translations = example_rows,
      res_events = Fetch example_query # example_report @ [Input prompt]\<rparr>
   \<and> deletes (Fetch example_query # example_report @ [Input prompt]) = []
   \<and> (SUCCESS, ''Successfully synchronized translations.'')
       \<notin> set (messages (Fetch example_query # example_report @ [Input prompt]))"
proof -
  have a: "handle (example_world [Line ''y'']) (example_options True None) =
     \<lparr>res_outcome = Returned (PyBool True), res_translations = example_rows,
      res_events = Fetch example_query # example_report @ [Input prompt]\<rparr>"
    by (simp add: example_answered finish_def lower_def lower_char_def)
       (simp add: example_world_def)
  have b: "handle (example_world [Line ''YES'']) (example_options True None) =
     \<lparr>res_outcome = Returned (PyBool True), res_translations = example_rows,
      res_events = Fetch example_query # example_report @ [Input prompt]\<rparr>"
    by (simp add: example_answered finish_def lower_def lower_char_def)
       (simp add: example_world_def)
  have c: "deletes (Fetch example_query # example_report @ [Input prompt]) = []"
    by (simp add: example_report_def)
  have d: "(SUCCESS, ''Successfully synchronized translations.'')
       \<notin> set (messages (Fetch example_query # example_report @ [Input prompt]))"
    by (simp add: example_report_def)
  from a b c d show ?thesis by blast
qed

text \<open>
  \<^bold>\<open>C3: what the code does.\<close> In interactive mode on a terminal, with three stale rows,
  the answer \<open>n\<close> makes line 115 return \<open>False\<close> and the answer \<open>maybe\<close> makes line 117
  return \<open>None\<close> from \<open>handle\<close>: no row is deleted, and the log ends with the prompt, so
  the message that the synchronization is cancelled is not written.
\<close>

theorem no_answer_returns_before_message:
  "handle (example_world [Line ''n'']) (example_options True None) =
     \<lparr>res_outcome = Returned (PyBool False), res_translations = example_rows,
      res_events = Fetch example_query # example_report @ [Input prompt]\<rparr>
   \<and> handle (example_world [Line ''maybe'']) (example_options True None) =
     \<lparr>res_outcome = Returned PyNone, res_translations = example_rows,
      res_events = Fetch example_query # example_report @ [Input prompt]\<rparr>
   \<and> deletes (Fetch example_query # example_report @ [Input prompt]) = []
   \<and> (NOTICE, ''Synchronizing translations cancelled.'')
       \<notin> set (messages (Fetch example_query # example_report @ [Input prompt]))"
proof -
  have a: "handle (example_world [Line ''n'']) (example_options True None) =
     \<lparr>res_outcome = Returned (PyBool False), res_translations = example_rows,
      res_events = Fetch example_query # example_report @ [Input prompt]\<rparr>"
    by (simp add: example_answered finish_def lower_def lower_char_def)
       (simp add: example_world_def)
  have b: "handle (example_world [Line ''maybe'']) (example_options True None) =
     \<lparr>res_outcome = Returned PyNone, res_translations = example_rows,
      res_events = Fetch example_query # example_report @ [Input prompt]\<rparr>"
    by (simp add: example_answered finish_def lower_def lower_char_def)
       (simp add: example_world_def)
  have c: "deletes (Fetch example_query # example_report @ [Input prompt]) = []"
    by (simp add: example_report_def)
  have d: "(NOTICE, ''Synchronizing translations cancelled.'')
       \<notin> set (messages (Fetch example_query # example_report @ [Input prompt]))"
    by (simp add: example_report_def)
  from a b c d show ?thesis by blast
qed

subsection \<open>The candidate set\<close>

lemma candidatesD:
  assumes "get_content_types w (opt_app_label opts) = Inr cts"
    and "candidates w opts = Inr rows"
  shows "\<exists>query. build_query QEmpty cts = Inr query
           \<and> rows = filter (matches query) (translation_table w)"
  using assms by (auto simp: candidates_def split: sum.splits)

lemma scope_distinct:
  assumes "distinct (map ct_id (content_type_table w))"
    and "get_content_types w l = Inr cts"
  shows "distinct (map ct_id cts)"
  using assms
  by (auto simp: get_content_types_def distinct_map_filter split: option.splits if_splits)

lemma same_id_same_content_type:
  assumes "distinct (map ct_id cts)" and "c \<in> set cts" and "c' \<in> set cts"
    and "ct_id c' = ct_id c"
  shows "c' = c"
proof -
  have "inj_on ct_id (set cts)"
    using assms(1) by (simp add: distinct_map)
  then show ?thesis
    using assms(2,3,4) by (auto dest: inj_onD)
qed

lemma in_scope_selection:
  assumes "distinct (map ct_id cts)"
    and "build_query QEmpty cts = Inr query"
    and "c \<in> set cts"
    and "ct_id (tr_content_type r) = ct_id c"
  shows "matches query r = stale_for c r"
proof -
  have ne: "cts \<noteq> []"
    using assms(3) by auto
  have m: "matches query r = (\<exists>c' \<in> set cts. stale_for c' r)"
    using assms(2) ne by (rule build_query_from_empty)
  show ?thesis
  proof
    assume "matches query r"
    then obtain c' where c': "c' \<in> set cts" and st: "stale_for c' r"
      using m by auto
    have "ct_id c' = ct_id c"
      using st assms(4) by (simp add: stale_for_def)
    then have "c' = c"
      using assms(1,3) c' by (auto intro: same_id_same_content_type)
    then show "stale_for c r"
      using st by simp
  next
    assume "stale_for c r"
    then show "matches query r"
      using m assms(3) by auto
  qed
qed

text \<open>
  When no content type is in scope (the application has no model), the filter stays the
  empty \<open>Q()\<close> and the queryset is the whole table.
\<close>

lemma empty_scope_selects_every_row:
  assumes "get_content_types w (opt_app_label opts) = Inr []"
  shows "candidates w opts = Inr (translation_table w)"
  using assms by (simp add: candidates_def)

text \<open>
  The selection for a content type in scope. The primary keys of the content types
  being distinct, take a content type
  \<open>c\<close> in scope, with model class \<open>m\<close>. The candidate rows that point to \<open>c\<close> are the
  rows of the table that point to \<open>c\<close> and whose field is not among the translatable
  fields, when \<open>m\<close> is translatable with the fields \<open>fs\<close> (empty or not); they are all
  the rows of the table that point to \<open>c\<close> when \<open>m\<close> is not translatable. So no
  candidate row that points to \<open>c\<close> has a field among the translatable fields of \<open>m\<close>.
\<close>

lemma candidates_of_content_type_in_scope:
  assumes "distinct (map ct_id (content_type_table w))"
    and "get_content_types w (opt_app_label opts) = Inr cts"
    and "candidates w opts = Inr rows"
    and "c \<in> set cts"
    and "ct_model_class c = Some m"
  shows "(mc_translatable_fields m = Some fs \<longrightarrow>
            filter (\<lambda>r. ct_id (tr_content_type r) = ct_id c) rows
            = filter (\<lambda>r. ct_id (tr_content_type r) = ct_id c \<and> tr_field r \<notin> set fs)
                (translation_table w))
       \<and> (mc_translatable_fields m = None \<longrightarrow>
            filter (\<lambda>r. ct_id (tr_content_type r) = ct_id c) rows
            = filter (\<lambda>r. ct_id (tr_content_type r) = ct_id c) (translation_table w))
       \<and> (mc_translatable_fields m = Some fs \<longrightarrow>
            (\<forall>r \<in> set rows. ct_id (tr_content_type r) = ct_id c \<longrightarrow> tr_field r \<notin> set fs))"
proof -
  obtain query where q: "build_query QEmpty cts = Inr query"
    and rows: "rows = filter (matches query) (translation_table w)"
    using candidatesD [OF assms(2,3)] by blast
  have d: "distinct (map ct_id cts)"
    using assms(1,2) by (rule scope_distinct)
  have sel: "matches query r = stale_for c r" if "ct_id (tr_content_type r) = ct_id c" for r
    using d q assms(4) that by (rule in_scope_selection)
  have both: "filter (\<lambda>r. ct_id (tr_content_type r) = ct_id c) rows
      = filter (\<lambda>r. stale_for c r) (translation_table w)"
    unfolding rows filter_filter
    by (rule filter_cong) (auto simp: sel stale_for_def)
  have some: "mc_translatable_fields m = Some fs \<Longrightarrow>
      stale_for c r = (ct_id (tr_content_type r) = ct_id c \<and> tr_field r \<notin> set fs)" for r
    using assms(5) by (simp add: stale_for_def)
  have none: "mc_translatable_fields m = None \<Longrightarrow>
      stale_for c r = (ct_id (tr_content_type r) = ct_id c)" for r
    using assms(5) by (simp add: stale_for_def)
  have never: "tr_field r \<notin> set fs"
    if "mc_translatable_fields m = Some fs" and "r \<in> set rows"
      and "ct_id (tr_content_type r) = ct_id c" for r
  proof -
    have "matches query r"
      using that(2) by (simp add: rows)
    then have "stale_for c r"
      using sel [OF that(3)] by simp
    then show ?thesis
      using some [OF that(1)] by simp
  qed
  show ?thesis
    using both never by (auto simp: some none)
qed

lemma candidates_of_content_type_example:
  "distinct (map ct_id (content_type_table (example_world [])))
   \<and> get_content_types (example_world []) (opt_app_label (example_options True None))
       = Inr [Article, LegacyPage]
   \<and> candidates (example_world []) (example_options True None)
       = Inr [row 3 Article ''subtitle'', row 4 LegacyPage ''title'',
              row 5 LegacyPage ''caption'']
   \<and> Article \<in> set [Article, LegacyPage]
   \<and> ct_model_class Article
       = Some \<lparr>mc_name = ''Article'', mc_translatable_fields = Some [''title'', ''body'']\<rparr>
   \<and> filter (\<lambda>r. ct_id (tr_content_type r) = ct_id Article)
        [row 3 Article ''subtitle'', row 4 LegacyPage ''title'', row 5 LegacyPage ''caption'']
      = filter (\<lambda>r. ct_id (tr_content_type r) = ct_id Article
                  \<and> tr_field r \<notin> set [''title'', ''body''])
          (translation_table (example_world []))
   \<and> filter (\<lambda>r. ct_id (tr_content_type r) = ct_id Article)
        [row 3 Article ''subtitle'', row 4 LegacyPage ''title'', row 5 LegacyPage ''caption'']
      = [row 3 Article ''subtitle'']"
proof -
  let ?w = "example_world []"
  let ?o = "example_options True None"
  let ?m = "\<lparr>mc_name = ''Article'', mc_translatable_fields = Some [''title'', ''body'']\<rparr>"
  have a: "distinct (map ct_id (content_type_table ?w))"
    by (simp add: example_defs)
  have b: "get_content_types ?w (opt_app_label ?o) = Inr [Article, LegacyPage]"
    by (simp add: example_options_def example_scope)
  have t: "translation_table ?w = example_rows"
    by (simp add: example_world_def)
  have c: "candidates ?w ?o = Inr [row 3 Article ''subtitle'', row 4 LegacyPage ''title'',
      row 5 LegacyPage ''caption'']"
    by (simp add: candidates_def b example_build t example_candidates del: build_query.simps)
  have d: "Article \<in> set [Article, LegacyPage]"
    by simp
  have e: "ct_model_class Article = Some ?m"
    by (simp add: Article_def)
  have f: "mc_translatable_fields ?m = Some [''title'', ''body'']"
    by simp
  have g: "filter (\<lambda>r. ct_id (tr_content_type r) = ct_id Article)
        [row 3 Article ''subtitle'', row 4 LegacyPage ''title'', row 5 LegacyPage ''caption'']
      = filter (\<lambda>r. ct_id (tr_content_type r) = ct_id Article
                  \<and> tr_field r \<notin> set [''title'', ''body''])
          (translation_table ?w)"
    using candidates_of_content_type_in_scope
      [OF a b c d e, where fs = "[''title'', ''body'']"] f
    by blast
  have h: "filter (\<lambda>r. ct_id (tr_content_type r) = ct_id Article)
        [row 3 Article ''subtitle'', row 4 LegacyPage ''title'', row 5 LegacyPage ''caption'']
      = [row 3 Article ''subtitle'']"
    by (simp add: row_def Article_def LegacyPage_def)
  from a b c d e g h show ?thesis by blast
qed

text \<open>
  \<^bold>\<open>C2: what the code does when no content type is in scope.\<close> The application
  \<open>staticfiles\<close> is registered and has no content type, so the loop of lines 60 to 71
  does not run, the filter stays \<open>Q()\<close> and the queryset is the whole table. The row of
  the field \<open>title\<close> of \<open>Article\<close>, which is among the translatable fields \<open>title\<close>
  and \<open>body\<close> of its model, is a candidate, and under \<open>--noinput\<close> the five rows of the
  table are deleted, those of the two translatable fields of \<open>Article\<close> among them.
\<close>

theorem empty_scope_deletes_valid_rows:
  "''staticfiles'' \<in> set (app_labels staticfiles_world)
   \<and> get_content_types staticfiles_world
        (opt_app_label (example_options False (Some ''staticfiles''))) = Inr []
   \<and> build_query QEmpty [] = Inr QEmpty
   \<and> candidates staticfiles_world (example_options False (Some ''staticfiles''))
       = Inr example_rows
   \<and> row 1 Article ''title'' \<in> set example_rows
   \<and> ct_model_class (tr_content_type (row 1 Article ''title''))
       = Some \<lparr>mc_name = ''Article'', mc_translatable_fields = Some [''title'', ''body'']\<rparr>
   \<and> tr_field (row 1 Article ''title'') \<in> set [''title'', ''body'']
   \<and> handle staticfiles_world (example_options False (Some ''staticfiles'')) =
       \<lparr>res_outcome = Returned PyNone, res_translations = [],
        res_events = Fetch QEmpty # whole_table_report @
          [Delete QEmpty,
           StdoutWrite SUCCESS ''Successfully synchronized translations.'']\<rparr>"
proof -
  let ?w = "staticfiles_world"
  let ?o = "example_options False (Some ''staticfiles'')"
  have a: "''staticfiles'' \<in> set (app_labels ?w)"
    by (simp add: staticfiles_world_def)
  have t: "translation_table ?w = example_rows"
    by (simp add: staticfiles_world_def example_world_def)
  have s: "get_content_types ?w (opt_app_label ?o) = Inr []"
    by (simp add: get_content_types_def staticfiles_world_def example_world_def
        example_options_def Article_def LegacyPage_def)
  have b: "build_query QEmpty [] = Inr QEmpty"
    by simp
  have c: "candidates ?w ?o = Inr example_rows"
    using s by (simp add: candidates_def t)
  have d: "row 1 Article ''title'' \<in> set example_rows"
    by (simp add: example_rows_def)
  have e: "ct_model_class (tr_content_type (row 1 Article ''title''))
       = Some \<lparr>mc_name = ''Article'', mc_translatable_fields = Some [''title'', ''body'']\<rparr>"
    by (simp add: row_def Article_def)
  have f: "tr_field (row 1 Article ''title'') \<in> set [''title'', ''body'']"
    by (simp add: row_def)
  have all: "filter (matches QEmpty) (translation_table ?w) = example_rows"
    by (simp add: t)
  have n: "filter (matches QEmpty) (translation_table ?w) \<noteq> []"
    by (simp only: all) (simp add: example_rows_def)
  have r: "report ?w (opt_verbosity ?o) (filter (matches QEmpty) (translation_table ?w))
      = Inr whole_table_report"
    by (simp only: all)
       (simp add: report_def change_list_def dict_add_def dict_setdefault_def set_add_def
          change_line_def quoted_def staticfiles_world_def example_defs
          whole_table_report_def)
  have i: "\<not> opt_interactive ?o"
    by (simp add: example_options_def)
  have none: "filter (\<lambda>r. \<not> matches QEmpty r) (translation_table ?w) = []"
    by simp
  have h: "handle ?w ?o =
       \<lparr>res_outcome = Returned PyNone, res_translations = [],
        res_events = Fetch QEmpty # whole_table_report @
          [Delete QEmpty,
           StdoutWrite SUCCESS ''Successfully synchronized translations.'']\<rparr>"
    using handle_synchronize [OF s b] synchronize_noinput [OF n r i]
    by (simp only: none)
  from a s b c d e f h show ?thesis by blast
qed

text \<open>
  \<^bold>\<open>C10.\<close> For a content type \<open>c\<close> in scope whose model is translatable with an empty
  list of translatable fields, every row of the table that points to \<open>c\<close> is a
  candidate. The filter built for \<open>c\<close> is \<open>Q(content_type=c) & ~Q(field__in=[])\<close>; it
  selects the same rows as \<open>Q(content_type=c)\<close>, the filter built for the same content
  type when its model is not translatable.
\<close>

theorem empty_translatable_fields_select_every_row:
  assumes "get_content_types w (opt_app_label opts) = Inr cts"
    and "candidates w opts = Inr rows"
    and "c \<in> set cts"
    and "ct_model_class c = Some m"
    and "mc_translatable_fields m = Some []"
  shows "filter (\<lambda>r. ct_id (tr_content_type r) = ct_id c) rows
         = filter (\<lambda>r. ct_id (tr_content_type r) = ct_id c) (translation_table w)
       \<and> model_query c = Inr (QAnd (QContentType (ct_id c)) (QNot (QFieldIn [])))
       \<and> model_query (c\<lparr>ct_model_class := Some (m\<lparr>mc_translatable_fields := None\<rparr>)\<rparr>)
           = Inr (QContentType (ct_id c))
       \<and> matches (QAnd (QContentType (ct_id c)) (QNot (QFieldIn []))) r
           = matches (QContentType (ct_id c)) r"
proof -
  obtain query where q: "build_query QEmpty cts = Inr query"
    and rows: "rows = filter (matches query) (translation_table w)"
    using candidatesD [OF assms(1,2)] by blast
  have ne: "cts \<noteq> []"
    using assms(3) by auto
  have m: "matches query r = (\<exists>c' \<in> set cts. stale_for c' r)" for r
    using q ne by (rule build_query_from_empty)
  have st: "stale_for c r" if "ct_id (tr_content_type r) = ct_id c" for r
    using that assms(4,5) by (simp add: stale_for_def)
  have sel: "matches query r" if "ct_id (tr_content_type r) = ct_id c" for r
    using m st [OF that] assms(3) by auto
  have every: "filter (\<lambda>r. ct_id (tr_content_type r) = ct_id c) rows
         = filter (\<lambda>r. ct_id (tr_content_type r) = ct_id c) (translation_table w)"
    unfolding rows filter_filter
    by (rule filter_cong) (auto simp: sel)
  have built: "model_query c = Inr (QAnd (QContentType (ct_id c)) (QNot (QFieldIn [])))"
    using assms(4,5) by (simp add: model_query_def)
  have other: "model_query (c\<lparr>ct_model_class := Some (m\<lparr>mc_translatable_fields := None\<rparr>)\<rparr>)
           = Inr (QContentType (ct_id c))"
    by (simp add: model_query_def)
  show ?thesis
    using every built other by simp
qed

theorem empty_translatable_fields_witness:
  "get_content_types tag_world (opt_app_label (example_options False (Some ''tags'')))
     = Inr [Tag]
   \<and> candidates tag_world (example_options False (Some ''tags''))
       = Inr [row 6 Tag ''name'', row 7 Tag ''slug'']
   \<and> Tag \<in> set [Tag]
   \<and> ct_model_class Tag = Some \<lparr>mc_name = ''Tag'', mc_translatable_fields = Some []\<rparr>
   \<and> filter (\<lambda>r. ct_id (tr_content_type r) = ct_id Tag)
        [row 6 Tag ''name'', row 7 Tag ''slug'']
      = filter (\<lambda>r. ct_id (tr_content_type r) = ct_id Tag) (translation_table tag_world)
   \<and> filter (\<lambda>r. ct_id (tr_content_type r) = ct_id Tag) (translation_table tag_world)
      = [row 6 Tag ''name'', row 7 Tag ''slug'']
   \<and> model_query Tag = Inr (QAnd (QContentType 3) (QNot (QFieldIn [])))"
proof -
  let ?o = "example_options False (Some ''tags'')"
  let ?m = "\<lparr>mc_name = ''Tag'', mc_translatable_fields = Some []\<rparr>"
  have a: "get_content_types tag_world (opt_app_label ?o) = Inr [Tag]"
    by (simp add: get_content_types_def tag_world_def example_options_def Tag_def Article_def)
  have b: "candidates tag_world ?o = Inr [row 6 Tag ''name'', row 7 Tag ''slug'']"
    by (simp add: candidates_def a del: build_query.simps)
       (simp add: model_query_def tag_world_def Tag_def Article_def row_def)
  have c: "Tag \<in> set [Tag]"
    by simp
  have d: "ct_model_class Tag = Some ?m"
    by (simp add: Tag_def)
  have e: "mc_translatable_fields ?m = Some []"
    by simp
  note inst = empty_translatable_fields_select_every_row [OF a b c d e]
  have f: "filter (\<lambda>r. ct_id (tr_content_type r) = ct_id Tag)
        [row 6 Tag ''name'', row 7 Tag ''slug'']
      = filter (\<lambda>r. ct_id (tr_content_type r) = ct_id Tag) (translation_table tag_world)"
    using inst by blast
  have g: "filter (\<lambda>r. ct_id (tr_content_type r) = ct_id Tag) (translation_table tag_world)
      = [row 6 Tag ''name'', row 7 Tag ''slug'']"
    by (simp add: tag_world_def Tag_def Article_def row_def)
  have h: "model_query Tag = Inr (QAnd (QContentType 3) (QNot (QFieldIn [])))"
    using inst by (simp add: Tag_def)
  from a b c d f g h show ?thesis by blast
qed

subsection \<open>The report\<close>

lemma set_set_add: "set (set_add s x) = insert x (set s)"
  by (auto simp: set_add_def)

lemma distinct_set_add: "distinct s \<Longrightarrow> distinct (set_add s x)"
  by (simp add: set_add_def)

lemma distinct_foldl_set_add: "distinct acc \<Longrightarrow> distinct (foldl set_add acc xs)"
  by (induction xs arbitrary: acc) (simp_all add: distinct_set_add)

lemma set_foldl_set_add: "set (foldl set_add acc xs) = set acc \<union> set xs"
  by (induction xs arbitrary: acc) (auto simp: set_set_add)

lemma distinct_first_seen: "distinct (first_seen xs)"
  by (simp add: first_seen_def distinct_foldl_set_add)

lemma set_first_seen: "set (first_seen xs) = set xs"
  by (simp add: first_seen_def set_foldl_set_add)

lemma keys_dict_setdefault: "map fst (dict_setdefault d k) = set_add (map fst d) k"
  by (simp add: dict_setdefault_def set_add_def)

lemma keys_dict_add: "map fst (dict_add d k x) = map fst d"
  by (induction d) (auto simp: dict_add_def)

lemma fields_in_dict_setdefault: "fields_in (dict_setdefault d k) k' = fields_in d k'"
proof (cases "k \<in> set (map fst d)")
  case True
  then show ?thesis by (simp add: dict_setdefault_def)
next
  case False
  then have "map_of d k = None"
    by (simp add: map_of_eq_None_iff)
  then show ?thesis
    using False by (simp add: dict_setdefault_def fields_in_def map_add_def split: option.split)
qed

lemma map_of_dict_add:
  "map_of (dict_add d k x) k'
   = (if k' = k then map_option (\<lambda>s. set_add s x) (map_of d k) else map_of d k')"
  by (induction d) (auto simp: dict_add_def)

lemma fields_in_dict_add:
  assumes "k \<in> set (map fst d)"
  shows "fields_in (dict_add d k x) k'
         = (if k' = k then set_add (fields_in d k) x else fields_in d k')"
proof -
  obtain s where "map_of d k = Some s"
    using assms by (cases "map_of d k") (auto simp: map_of_eq_None_iff)
  then show ?thesis
    by (simp add: fields_in_def map_of_dict_add)
qed

lemma fields_in_step:
  "fields_in (dict_add (dict_setdefault d k) k x) k'
   = (if k' = k then set_add (fields_in d k) x else fields_in d k')"
proof -
  have "k \<in> set (map fst (dict_setdefault d k))"
    by (simp add: keys_dict_setdefault set_set_add)
  then show ?thesis
    by (simp add: fields_in_dict_add fields_in_dict_setdefault)
qed

lemma keys_step: "map fst (dict_add (dict_setdefault d k) k x) = set_add (map fst d) k"
  by (simp add: keys_dict_add keys_dict_setdefault)

lemma collect_changes_succeeds:
  "\<forall>r \<in> set rows. ct_model_class (tr_content_type r) \<noteq> None \<Longrightarrow>
   \<exists>d'. collect_changes d rows = Inr d'"
  by (induction rows arbitrary: d) (auto split: option.splits)

lemma collect_changes_closed_form:
  "collect_changes d rows = Inr d' \<Longrightarrow>
   map fst d' = foldl set_add (map fst d) (map display_name rows)
   \<and> (\<forall>k. fields_in d' k
          = foldl set_add (fields_in d k)
              (map tr_field (filter (\<lambda>r. display_name r = k) rows)))"
proof (induction rows arbitrary: d)
  case Nil
  then show ?case by simp
next
  case (Cons r rows)
  from Cons.prems obtain model where m: "ct_model_class (tr_content_type r) = Some model"
    and rest: "collect_changes
        (dict_add (dict_setdefault d (mc_name model)) (mc_name model) (tr_field r)) rows
      = Inr d'"
    by (auto split: option.splits)
  have n: "display_name r = mc_name model"
    using m by (simp add: display_name_def)
  show ?case
    using Cons.IH [OF rest] by (simp add: n keys_step fields_in_step)
qed

lemma dict_by_keys:
  "distinct (map fst d) \<Longrightarrow> map (\<lambda>e. (fst e, fields_in d (fst e))) d = d"
proof (induction d)
  case Nil
  then show ?case by simp
next
  case (Cons e d)
  obtain k s where e: "e = (k, s)"
    by (cases e)
  have notin: "k \<notin> fst ` set d" and dist: "distinct (map fst d)"
    using Cons.prems by (simp_all add: e)
  have "fields_in ((k, s) # d) (fst e') = fields_in d (fst e')" if "e' \<in> set d" for e'
    using that notin by (auto simp: fields_in_def)
  then have "map (\<lambda>e'. (fst e', fields_in ((k, s) # d) (fst e'))) d
      = map (\<lambda>e'. (fst e', fields_in d (fst e'))) d"
    by (intro map_cong refl) simp
  also have "\<dots> = d"
    using dist by (rule Cons.IH)
  finally show ?case
    by (simp add: e fields_in_def)
qed

lemma change_list_closed_form:
  assumes "\<forall>r \<in> set rows. ct_model_class (tr_content_type r) \<noteq> None"
  shows "change_list w rows =
    Inr (map (\<lambda>name. change_line (set_iteration w) (name, fields_under name rows))
          (names_of rows))"
proof -
  obtain d' where c: "collect_changes [] rows = Inr d'"
    using collect_changes_succeeds [OF assms] by blast
  have k: "map fst d' = names_of rows"
    using collect_changes_closed_form [OF c] by (simp add: names_of_def first_seen_def)
  have f: "fields_in d' name = fields_under name rows" for name
    using collect_changes_closed_form [OF c]
    by (simp add: fields_under_def first_seen_def fields_in_def)
  have "distinct (map fst d')"
    by (simp add: k names_of_def distinct_first_seen)
  then have "map (\<lambda>e. (fst e, fields_in d' (fst e))) d' = d'"
    by (rule dict_by_keys)
  then have "map (change_line (set_iteration w)) d'
      = map (change_line (set_iteration w)) (map (\<lambda>e. (fst e, fields_in d' (fst e))) d')"
    by simp
  also have "\<dots> = map (\<lambda>name. change_line (set_iteration w) (name, fields_under name rows))
          (map fst d')"
    by (simp add: f comp_def)
  finally have "map (change_line (set_iteration w)) d'
      = map (\<lambda>name. change_line (set_iteration w) (name, fields_under name rows))
          (names_of rows)"
    by (simp only: k)
  then show ?thesis
    by (simp add: change_list_def c)
qed
text \<open>
  \<^bold>\<open>C4, as amended.\<close> For rows whose content types all have a model class, the report
  at verbosity 1 or more is the heading followed by one line for each distinct
  \<open>__name__\<close> among the model classes of the rows (record types that share a name share
  a line), in the order of first appearance of the names. The line of a name shows the
  distinct field names of the rows under that name, in the order in which the set is
  iterated over, joined by commas; \<open>field\<close> gets its \<open>s\<close> exactly when there is more than
  one distinct field name. Below verbosity 1 the report is empty.
\<close>

theorem report_one_line_per_name:
  assumes "\<forall>r \<in> set rows. ct_model_class (tr_content_type r) \<noteq> None"
  shows "(1 \<le> v \<longrightarrow>
          report w v rows =
            Inr [StdoutWrite Plain ''The translations for the following will be deleted:'',
                 StdoutWrite Plain
                   (join ''\<newline>''
                     (map (\<lambda>name.
                             ''- '' @ quoted (join '', '' (set_iteration w (fields_under name rows)))
                             @ '' field''
                             @ (if 1 < length (fields_under name rows) then ''s'' else [])
                             @ '' in '' @ quoted name @ '' model'')
                        (names_of rows)))])
       \<and> (v < 1 \<longrightarrow> report w v rows = Inr [])
       \<and> distinct (names_of rows)
       \<and> set (names_of rows) = display_name ` set rows
       \<and> distinct (fields_under name rows)
       \<and> set (fields_under name rows) = tr_field ` {r \<in> set rows. display_name r = name}
       \<and> length (fields_under name rows)
           = card (tr_field ` {r \<in> set rows. display_name r = name})"
proof -
  have lines: "change_list w rows =
    Inr (map (\<lambda>name.
               ''- '' @ quoted (join '', '' (set_iteration w (fields_under name rows)))
               @ '' field''
               @ (if 1 < length (fields_under name rows) then ''s'' else [])
               @ '' in '' @ quoted name @ '' model'')
          (names_of rows))"
    using change_list_closed_form [OF assms] by (simp add: change_line_def)
  have loud: "1 \<le> v \<Longrightarrow>
          report w v rows =
            Inr [StdoutWrite Plain ''The translations for the following will be deleted:'',
                 StdoutWrite Plain
                   (join ''\<newline>''
                     (map (\<lambda>name.
                             ''- '' @ quoted (join '', '' (set_iteration w (fields_under name rows)))
                             @ '' field''
                             @ (if 1 < length (fields_under name rows) then ''s'' else [])
                             @ '' in '' @ quoted name @ '' model'')
                        (names_of rows)))]"
    by (simp add: report_def lines)
  have quiet: "v < 1 \<Longrightarrow> report w v rows = Inr []"
    by (simp add: report_def)
  have names: "distinct (names_of rows)" "set (names_of rows) = display_name ` set rows"
    by (simp_all add: names_of_def distinct_first_seen set_first_seen)
  have d: "distinct (fields_under name rows)"
    by (simp add: fields_under_def distinct_first_seen)
  have s: "set (fields_under name rows) = tr_field ` {r \<in> set rows. display_name r = name}"
    by (simp add: fields_under_def set_first_seen)
  have c: "length (fields_under name rows)
      = card (tr_field ` {r \<in> set rows. display_name r = name})"
    using distinct_card [OF d] by (simp only: s)
  from loud quiet names d s c show ?thesis by blast
qed

theorem report_witness:
  "list_all (\<lambda>r. ct_model_class (tr_content_type r) \<noteq> None)
     [row 3 Article ''subtitle'', row 4 LegacyPage ''title'', row 5 LegacyPage ''caption'']
   \<and> report (example_world []) 1
        [row 3 Article ''subtitle'', row 4 LegacyPage ''title'', row 5 LegacyPage ''caption'']
      = Inr [StdoutWrite Plain ''The translations for the following will be deleted:'',
             StdoutWrite Plain
               (''- 'subtitle' field in 'Article' model'' @ ''\<newline>''
                @ ''- 'title, caption' fields in 'LegacyPage' model'')]
   \<and> report (example_world []) 0
        [row 3 Article ''subtitle'', row 4 LegacyPage ''title'', row 5 LegacyPage ''caption'']
      = Inr []
   \<and> names_of
        [row 3 Article ''subtitle'', row 4 LegacyPage ''title'', row 5 LegacyPage ''caption'']
      = [''Article'', ''LegacyPage'']
   \<and> fields_under ''LegacyPage''
        [row 3 Article ''subtitle'', row 4 LegacyPage ''title'', row 5 LegacyPage ''caption'']
      = [''title'', ''caption'']"
proof -
  let ?rows = "[row 3 Article ''subtitle'', row 4 LegacyPage ''title'',
    row 5 LegacyPage ''caption'']"
  have a': "list_all (\<lambda>r. ct_model_class (tr_content_type r) \<noteq> None) ?rows"
    by (simp add: row_def Article_def LegacyPage_def)
  then have a: "\<forall>r \<in> set ?rows. ct_model_class (tr_content_type r) \<noteq> None"
    by (simp only: list_all_iff)
  have n: "names_of ?rows = [''Article'', ''LegacyPage'']"
    by (simp add: names_of_def first_seen_def set_add_def display_name_def row_def
        Article_def LegacyPage_def)
  have f1: "fields_under ''Article'' ?rows = [''subtitle'']"
    by (simp add: fields_under_def first_seen_def set_add_def display_name_def row_def
        Article_def LegacyPage_def)
  have f2: "fields_under ''LegacyPage'' ?rows = [''title'', ''caption'']"
    by (simp add: fields_under_def first_seen_def set_add_def display_name_def row_def
        Article_def LegacyPage_def)
  have i: "set_iteration (example_world []) = (\<lambda>s. s)"
    by (simp add: example_world_def)
  have loud: "report (example_world []) 1 ?rows
      = Inr [StdoutWrite Plain ''The translations for the following will be deleted:'',
             StdoutWrite Plain
               (''- 'subtitle' field in 'Article' model'' @ ''\<newline>''
                @ ''- 'title, caption' fields in 'LegacyPage' model'')]"
    using report_one_line_per_name [OF a, where v = 1 and w = "example_world []"]
    by (simp add: n f1 f2 i quoted_def)
  have quiet: "report (example_world []) 0 ?rows = Inr []"
    using report_one_line_per_name [OF a, where v = 0 and w = "example_world []"]
    by simp
  from a' loud quiet n f2 show ?thesis by blast
qed

text \<open>
  \<^bold>\<open>C4, as stated, fails.\<close> Two record types of two applications are both named
  \<open>Article\<close>, with rows for the fields \<open>subtitle\<close> and \<open>intro\<close> of the first and
  \<open>subtitle\<close> of the second, in a process that iterates over the set of the two names
  in the reverse order of insertion. The command writes one line for the two record
  types, and the field names in it are not in the order of first appearance.
\<close>

theorem report_counterexample:
  "change_list clash_world clash_rows
     = Inr [''- 'intro, subtitle' fields in 'Article' model'']
   \<and> claimed_change_list clash_rows
     = [''- 'subtitle, intro' fields in 'Article' model'',
        ''- 'subtitle' field in 'Article' model'']
   \<and> first_seen (map tr_content_type clash_rows) = [Article, NewsArticle]
   \<and> Article \<noteq> NewsArticle
   \<and> report clash_world 1 clash_rows
     = Inr [StdoutWrite Plain ''The translations for the following will be deleted:'',
            StdoutWrite Plain ''- 'intro, subtitle' fields in 'Article' model'']"
proof -
  have a: "change_list clash_world clash_rows
     = Inr [''- 'intro, subtitle' fields in 'Article' model'']"
    by (simp add: change_list_def clash_world_def clash_rows_def row_def Article_def
        NewsArticle_def dict_add_def dict_setdefault_def set_add_def change_line_def
        quoted_def)
  have b: "claimed_change_list clash_rows
     = [''- 'subtitle, intro' fields in 'Article' model'',
        ''- 'subtitle' field in 'Article' model'']"
    by (simp add: claimed_change_list_def clash_rows_def row_def Article_def
        NewsArticle_def first_seen_def set_add_def change_line_def quoted_def)
  have c: "first_seen (map tr_content_type clash_rows) = [Article, NewsArticle]"
    by (simp add: clash_rows_def row_def Article_def NewsArticle_def first_seen_def
        set_add_def)
  have d: "Article \<noteq> NewsArticle"
    by (simp add: Article_def NewsArticle_def)
  have e: "report clash_world 1 clash_rows
     = Inr [StdoutWrite Plain ''The translations for the following will be deleted:'',
            StdoutWrite Plain ''- 'intro, subtitle' fields in 'Article' model'']"
    by (simp add: report_def a)
  from a b c d e show ?thesis by blast
qed

subsection \<open>The interactive path never reaches the delete\<close>

text \<open>
  In interactive mode on a terminal, whatever the standard input holds (a line, an
  interrupt or nothing), \<open>handle\<close> is left from inside the loop: \<open>run\<close> is never
  assigned, no delete is issued and the table is unchanged.
\<close>

lemma ask_leaves_handle: "\<exists>v e evs. ask None rs = (Return v, evs) \<or> ask None rs = (Raise e, evs)"
  by (cases "(None :: bool option, rs)" rule: ask.cases) (auto simp: Let_def)

lemma ask_no_delete: "deletes (snd (ask None rs)) = []"
  by (cases "(None :: bool option, rs)" rule: ask.cases) (auto simp: Let_def)

lemma interactive_never_deletes:
  assumes "get_content_types w (opt_app_label opts) = Inr cts"
    and "build_query QEmpty cts = Inr query"
    and "filter (matches query) (translation_table w) \<noteq> []"
    and "report w (opt_verbosity opts) (filter (matches query) (translation_table w)) = Inr told"
    and "opt_interactive opts"
    and "stdin_isatty w \<noteq> Some False"
  shows "res_translations (handle w opts) = translation_table w
       \<and> deletes (res_events (handle w opts)) = []"
proof -
  have h: "handle w opts = synchronize w opts query"
    using assms(1,2) by (rule handle_synchronize)
  obtain fl evs where a: "ask None (stdin_responses w) = (fl, evs)"
    by (cases "ask None (stdin_responses w)")
  have leaves: "(\<exists>v. fl = Return v) \<or> (\<exists>e. fl = Raise e)"
    using ask_leaves_handle [of "stdin_responses w"] a by auto
  have quiet: "deletes evs = []"
    using ask_no_delete [of "stdin_responses w"] a by simp
  have s: "synchronize w opts query = finish w query (Fetch query # told @ evs) fl"
    using assms(3,4,5,6) a by (simp add: synchronize_def confirm_def)
  show ?thesis
    using leaves quiet report_quiet [OF assms(4)]
    by (auto simp: h s finish_def deletes_append)
qed

end
